theory Spec2Isabelle
  imports Complex_Main "HOL-Library.Sublist"
begin

section \<open>Python values\<close>

text \<open>
  The agent of \<^verbatim>\<open>llm_tool_pattern_starter.py\<close> moves JSON-shaped Python values
  around: the decoded reply of the model, the argument dictionary of a tool call, the
  result of a tool. They are modelled by one datatype. A \<^verbatim>\<open>dict\<close> is an association
  list with distinct keys in insertion order, a \<^verbatim>\<open>str\<close> is a \<open>string\<close> (the
  8-bit alphabet of \<open>char\<close>: code points below 256), an \<^verbatim>\<open>int\<close> is unbounded.
  A \<^verbatim>\<open>float\<close> is an IEEE double, given by its exact value or as one of the
  special values.
\<close>

datatype pyfloat = Fin rat | NegZero | PosInf | NegInf | NaN

datatype pyval =
    PNone
  | PBool bool
  | PInt int
  | PFloat pyfloat
  | PStr string
  | PList "pyval list"
  | PDict "(string \<times> pyval) list"

text \<open>Exceptions carry their class and the text that \<^verbatim>\<open>str(e)\<close> gives.\<close>

datatype error =
    TypeError string
  | AttributeError string
  | ValueError string
  | OverflowError string
  | ZeroDivisionError string
  | OtherError string

fun str_exc :: "error \<Rightarrow> string" where
  "str_exc (TypeError m) = m"
| "str_exc (AttributeError m) = m"
| "str_exc (ValueError m) = m"
| "str_exc (OverflowError m) = m"
| "str_exc (ZeroDivisionError m) = m"
| "str_exc (OtherError m) = m"

fun type_name :: "pyval \<Rightarrow> string" where
  "type_name PNone = ''NoneType''"
| "type_name (PBool b) = ''bool''"
| "type_name (PInt i) = ''int''"
| "type_name (PFloat f) = ''float''"
| "type_name (PStr s) = ''str''"
| "type_name (PList xs) = ''list''"
| "type_name (PDict kvs) = ''dict''"

text \<open>Truth value of an object, as \<^verbatim>\<open>if tool_call:\<close> tests it.\<close>

fun truthy :: "pyval \<Rightarrow> bool" where
  "truthy PNone = False"
| "truthy (PBool b) = b"
| "truthy (PInt i) = (i \<noteq> 0)"
| "truthy (PFloat f) = (f \<noteq> Fin 0 \<and> f \<noteq> NegZero)"
| "truthy (PStr s) = (s \<noteq> [])"
| "truthy (PList xs) = (xs \<noteq> [])"
| "truthy (PDict kvs) = (kvs \<noteq> [])"

subsection \<open>Dictionaries\<close>

definition dict_has :: "(string \<times> pyval) list \<Rightarrow> string \<Rightarrow> bool" where
  "dict_has kvs k = (map_of kvs k \<noteq> None)"

text \<open>\<^verbatim>\<open>d.get(k, default)\<close> on a dict.\<close>

definition dict_get :: "(string \<times> pyval) list \<Rightarrow> string \<Rightarrow> pyval \<Rightarrow> pyval" where
  "dict_get kvs k dflt = (case map_of kvs k of None \<Rightarrow> dflt | Some v \<Rightarrow> v)"

text \<open>\<^verbatim>\<open>d[k] = v\<close>: an existing key keeps its place, a new one goes last.\<close>

fun dict_set :: "(string \<times> pyval) list \<Rightarrow> string \<Rightarrow> pyval \<Rightarrow> (string \<times> pyval) list" where
  "dict_set [] k v = [(k, v)]"
| "dict_set ((k', v') # kvs) k v =
     (if k' = k then (k, v) # kvs else (k', v') # dict_set kvs k v)"

text \<open>
  The method call \<^verbatim>\<open>obj.get(k, default)\<close> on any object: only a dict has the
  method, every other JSON-shaped value raises \<^verbatim>\<open>AttributeError\<close>.
\<close>

definition squote :: string where
  "squote = [CHR 0x27]"

fun py_get :: "pyval \<Rightarrow> string \<Rightarrow> pyval \<Rightarrow> error + pyval" where
  "py_get (PDict kvs) k dflt = Inr (dict_get kvs k dflt)"
| "py_get v k dflt =
     Inl (AttributeError (squote @ type_name v @ squote @ '' object has no attribute ''
            @ squote @ ''get'' @ squote))"

section \<open>The tool-call parser\<close>

subsection \<open>Stripping the tags\<close>

text \<open>
  \<^verbatim>\<open>re.sub(r'</?tool_call>', '', s)\<close> scans \<open>s\<close> from the left; where the text
  starts with one of the two tags the tag is dropped and the scan goes on behind it,
  elsewhere one character is kept. The result is not scanned again.
\<close>

definition open_tag :: string where
  "open_tag = ''<tool_call>''"

definition close_tag :: string where
  "close_tag = ''</tool_call>''"

function clean_tags :: "string \<Rightarrow> string" where
  "clean_tags [] = []"
| "clean_tags (c # cs) =
     (if prefix open_tag (c # cs) then clean_tags (drop (length open_tag) (c # cs))
      else if prefix close_tag (c # cs) then clean_tags (drop (length close_tag) (c # cs))
      else c # clean_tags cs)"
  by pat_completeness auto
termination
  by (relation "measure length") (auto simp: open_tag_def close_tag_def)

subsection \<open>Rounding to a double\<close>

text \<open>
  A decimal literal with a fraction or an exponent, and the quotient of two ints, become
  the nearest double (ties to even): 53 bits of mantissa, exponents down to the
  subnormal step \<open>2\<^sup>-\<^sup>1\<^sup>0\<^sup>7\<^sup>4\<close>, infinity from \<open>2\<^sup>1\<^sup>0\<^sup>2\<^sup>4\<close> on.
\<close>

definition pow2 :: "int \<Rightarrow> rat" where
  "pow2 e = (if 0 \<le> e then 2 ^ nat e else 1 / 2 ^ nat (- e))"

definition pow10 :: "int \<Rightarrow> rat" where
  "pow10 e = (if 0 \<le> e then 10 ^ nat e else 1 / 10 ^ nat (- e))"

fun bitlen :: "nat \<Rightarrow> nat" where
  "bitlen n = (if n = 0 then 0 else Suc (bitlen (n div 2)))"

declare bitlen.simps [simp del]

text \<open>\<open>ilog2 q\<close> is the \<open>k\<close> with \<open>2\<^sup>k \<le> q < 2\<^sup>k\<^sup>+\<^sup>1\<close>, for \<open>q > 0\<close>.\<close>

definition ilog2 :: "rat \<Rightarrow> int" where
  "ilog2 q =
     (let (n, d) = quotient_of q;
          k = int (bitlen (nat n)) - int (bitlen (nat d))
      in if q < pow2 k then k - 1 else k)"

definition round_half_even :: "rat \<Rightarrow> int" where
  "round_half_even q =
     (let f = \<lfloor>q\<rfloor>; r = q - of_int f
      in if r < 1 / 2 then f else if 1 / 2 < r then f + 1
         else if even f then f else f + 1)"

definition nearest :: "rat \<Rightarrow> rat" where
  "nearest q =
     (if q = 0 then 0
      else let e = max (ilog2 \<bar>q\<bar>) (- 1022);
               u = pow2 (e - 52)
           in of_int (round_half_even (q / u)) * u)"

definition round_double :: "rat \<Rightarrow> pyfloat" where
  "round_double q =
     (let r = nearest q
      in if r = 0 then (if q < 0 then NegZero else Fin 0)
         else if pow2 1024 \<le> \<bar>r\<bar> then (if q < 0 then NegInf else PosInf)
         else Fin r)"

subsection \<open>The JSON decoder\<close>

text \<open>
  \<^verbatim>\<open>json.loads\<close> is the standard library's decoder, not code of the repository; the
  model follows its scanner. \<open>None\<close> stands for "the decoder raises", which is all
  \<open>parse_tool_call\<close> tells apart. The decoder reads: white space (space, tab, line
  feed, carriage return) around every token; \<^verbatim>\<open>null\<close>, \<^verbatim>\<open>true\<close>,
  \<^verbatim>\<open>false\<close>, \<^verbatim>\<open>NaN\<close>, \<^verbatim>\<open>Infinity\<close>, \<^verbatim>\<open>-Infinity\<close>; numbers
  (an int unless a fraction or an exponent is present); strings with the escapes of JSON
  and no raw control character; arrays; objects, where a repeated key keeps its first
  place and its last value. Nothing may follow the value but white space.

  Two limits of the model: an escape \<^verbatim>\<open>\uXXXX\<close> for a code point above 255 is
  outside the alphabet of \<open>char\<close> and is treated as undecodable, and an integer
  literal is decoded whatever its length.
\<close>

definition is_ws :: "char \<Rightarrow> bool" where
  "is_ws c = (c = CHR '' '' \<or> c = CHR 0x09 \<or> c = CHR 0x0A \<or> c = CHR 0x0D)"

definition skip_ws :: "string \<Rightarrow> string" where
  "skip_ws s = dropWhile is_ws s"

definition is_digit :: "char \<Rightarrow> bool" where
  "is_digit c = (48 \<le> (of_char c :: nat) \<and> (of_char c :: nat) \<le> 57)"

definition digit_val :: "char \<Rightarrow> nat" where
  "digit_val c = of_char c - 48"

definition nat_of_digits :: "string \<Rightarrow> nat" where
  "nat_of_digits ds = foldl (\<lambda>n c. 10 * n + digit_val c) 0 ds"

definition hex_val :: "char \<Rightarrow> nat option" where
  "hex_val c =
     (let n = (of_char c :: nat)
      in if 48 \<le> n \<and> n \<le> 57 then Some (n - 48)
         else if 97 \<le> n \<and> n \<le> 102 then Some (n - 87)
         else if 65 \<le> n \<and> n \<le> 70 then Some (n - 55)
         else None)"

definition hex4 :: "char \<Rightarrow> char \<Rightarrow> char \<Rightarrow> char \<Rightarrow> nat option" where
  "hex4 a b c d =
     (case (hex_val a, hex_val b, hex_val c, hex_val d) of
        (Some w, Some x, Some y, Some z) \<Rightarrow> Some (((w * 16 + x) * 16 + y) * 16 + z)
      | _ \<Rightarrow> None)"

definition unescape :: "char \<Rightarrow> char option" where
  "unescape c =
     (if c = CHR 0x22 then Some (CHR 0x22)
      else if c = CHR 0x5C then Some (CHR 0x5C)
      else if c = CHR ''/'' then Some (CHR ''/'')
      else if c = CHR ''b'' then Some (CHR 0x08)
      else if c = CHR ''f'' then Some (CHR 0x0C)
      else if c = CHR ''n'' then Some (CHR 0x0A)
      else if c = CHR ''r'' then Some (CHR 0x0D)
      else if c = CHR ''t'' then Some (CHR 0x09)
      else None)"

text \<open>The body of a string, behind its opening quote: the text and what follows the
  closing quote.\<close>

fun scanstring :: "string \<Rightarrow> string \<Rightarrow> (string \<times> string) option" where
  "scanstring acc [] = None"
| "scanstring acc (c # cs) =
     (if c = CHR 0x22 then Some (acc, cs)
      else if c = CHR 0x5C then
        (case cs of
           [] \<Rightarrow> None
         | e # r \<Rightarrow>
             if e = CHR ''u'' then
               (case r of
                  h1 # h2 # h3 # h4 # r' \<Rightarrow>
                    (case hex4 h1 h2 h3 h4 of
                       None \<Rightarrow> None
                     | Some n \<Rightarrow> if n < 256 then scanstring (acc @ [char_of n]) r' else None)
                | _ \<Rightarrow> None)
             else
               (case unescape e of
                  None \<Rightarrow> None
                | Some ch \<Rightarrow> scanstring (acc @ [ch]) r))
      else if (of_char c :: nat) < 32 then None
      else scanstring (acc @ [c]) cs)"

text \<open>
  A number: an optional minus, \<open>0\<close> or a digit sequence without leading zero, an
  optional fraction (a dot and at least one digit), an optional exponent (\<open>e\<close> or
  \<open>E\<close>, an optional sign, at least one digit). A dot or an exponent mark that is not
  followed as required is left in the input.
\<close>

definition scan_frac :: "string \<Rightarrow> string \<times> string" where
  "scan_frac s =
     (case s of
        c # d # r \<Rightarrow>
          if c = CHR ''.'' \<and> is_digit d
          then (takeWhile is_digit (d # r), dropWhile is_digit (d # r))
          else ([], s)
      | _ \<Rightarrow> ([], s))"

definition scan_exp :: "string \<Rightarrow> int option \<times> string" where
  "scan_exp s =
     (case s of
        [] \<Rightarrow> (None, s)
      | c # r \<Rightarrow>
          if c = CHR ''e'' \<or> c = CHR ''E'' then
            (let (neg, r1) =
                   (case r of
                      [] \<Rightarrow> (False, r)
                    | g # r' \<Rightarrow>
                        if g = CHR ''-'' then (True, r')
                        else if g = CHR ''+'' then (False, r') else (False, r));
                 ds = takeWhile is_digit r1
             in if ds = [] then (None, s)
                else (Some (if neg then - int (nat_of_digits ds) else int (nat_of_digits ds)),
                      dropWhile is_digit r1))
          else (None, s))"

definition float_of_decimal :: "bool \<Rightarrow> nat \<Rightarrow> int \<Rightarrow> pyfloat" where
  "float_of_decimal neg m e =
     (if m = 0 then (if neg then NegZero else Fin 0)
      else round_double ((if neg then - 1 else 1) * of_nat m * pow10 e))"

definition scan_number :: "string \<Rightarrow> (pyval \<times> string) option" where
  "scan_number s =
     (let (neg, s1) =
            (case s of
               [] \<Rightarrow> (False, s)
             | c # r \<Rightarrow> if c = CHR ''-'' then (True, r) else (False, s))
      in case s1 of
           [] \<Rightarrow> None
         | c # r \<Rightarrow>
             if \<not> is_digit c then None
             else
               (let (ds, s2) =
                      (if c = CHR ''0'' then ([c], r)
                       else (takeWhile is_digit s1, dropWhile is_digit s1));
                    (fs, s3) = scan_frac s2;
                    (ex, s4) = scan_exp s3
                in if fs = [] \<and> ex = None
                   then Some (PInt (if neg then - int (nat_of_digits ds)
                                    else int (nat_of_digits ds)), s4)
                   else Some (PFloat (float_of_decimal neg (nat_of_digits (ds @ fs))
                                ((case ex of None \<Rightarrow> 0 | Some x \<Rightarrow> x) - int (length fs))),
                         s4)))"

text \<open>
  One value, then the elements of an array, then the members of an object. The first
  argument bounds the depth of the recursion; \<open>json_loads\<close> starts with more than any
  text of that length can use.
\<close>

fun scan_once :: "nat \<Rightarrow> string \<Rightarrow> (pyval \<times> string) option"
  and scan_array :: "nat \<Rightarrow> pyval list \<Rightarrow> string \<Rightarrow> (pyval \<times> string) option"
  and scan_object :: "nat \<Rightarrow> (string \<times> pyval) list \<Rightarrow> string \<Rightarrow> (pyval \<times> string) option"
where
  "scan_once 0 s = None"
| "scan_once (Suc n) s =
     (case s of
        [] \<Rightarrow> None
      | c # r \<Rightarrow>
          if c = CHR 0x22 then
            (case scanstring [] r of None \<Rightarrow> None | Some (t, r') \<Rightarrow> Some (PStr t, r'))
          else if c = CHR ''{'' then
            (case skip_ws r of
               [] \<Rightarrow> None
             | d # r1 \<Rightarrow>
                 if d = CHR ''}'' then Some (PDict [], r1)
                 else if d = CHR 0x22 then scan_object n [] r1
                 else None)
          else if c = CHR ''['' then
            (case skip_ws r of
               [] \<Rightarrow> None
             | d # r1 \<Rightarrow>
                 if d = CHR '']'' then Some (PList [], r1)
                 else scan_array n [] (d # r1))
          else if prefix ''null'' s then Some (PNone, drop 4 s)
          else if prefix ''true'' s then Some (PBool True, drop 4 s)
          else if prefix ''false'' s then Some (PBool False, drop 5 s)
          else if prefix ''NaN'' s then Some (PFloat NaN, drop 3 s)
          else if prefix ''Infinity'' s then Some (PFloat PosInf, drop 8 s)
          else if prefix ''-Infinity'' s then Some (PFloat NegInf, drop 9 s)
          else scan_number s)"
| "scan_array 0 acc s = None"
| "scan_array (Suc n) acc s =
     (case scan_once n s of
        None \<Rightarrow> None
      | Some (v, r) \<Rightarrow>
          (case skip_ws r of
             [] \<Rightarrow> None
           | d # r1 \<Rightarrow>
               if d = CHR '']'' then Some (PList (acc @ [v]), r1)
               else if d = CHR '','' then scan_array n (acc @ [v]) (skip_ws r1)
               else None))"
| "scan_object 0 acc s = None"
| "scan_object (Suc n) acc s =
     (case scanstring [] s of
        None \<Rightarrow> None
      | Some (k, r) \<Rightarrow>
          (case skip_ws r of
             [] \<Rightarrow> None
           | c # r1 \<Rightarrow>
               if c \<noteq> CHR '':'' then None
               else
                 (case scan_once n (skip_ws r1) of
                    None \<Rightarrow> None
                  | Some (v, r2) \<Rightarrow>
                      (case skip_ws r2 of
                         [] \<Rightarrow> None
                       | d # r3 \<Rightarrow>
                           if d = CHR ''}'' then Some (PDict (dict_set acc k v), r3)
                           else if d = CHR '','' then
                             (case skip_ws r3 of
                                [] \<Rightarrow> None
                              | q # r4 \<Rightarrow>
                                  if q = CHR 0x22 then scan_object n (dict_set acc k v) r4
                                  else None)
                           else None))))"

definition json_loads :: "string \<Rightarrow> pyval option" where
  "json_loads s =
     (case scan_once (2 * length s + 2) (skip_ws s) of
        None \<Rightarrow> None
      | Some (v, r) \<Rightarrow> if skip_ws r = [] then Some v else None)"

subsection \<open>parse\_tool\_call\<close>

text \<open>
  \<^verbatim>\<open>
  def parse_tool_call(tool_call_str: str):
      pattern = r'</?tool_call>'
      clean_tags = re.sub(pattern, '', tool_call_str)
      try:
          return json.loads(clean_tags)
      except:
          return None
  \<close>
  The bare \<^verbatim>\<open>except\<close> turns every failure of the decoder into \<^verbatim>\<open>None\<close>; a
  reply that is the JSON text \<^verbatim>\<open>null\<close> gives the same object.
\<close>

definition parse_tool_call :: "string \<Rightarrow> pyval" where
  "parse_tool_call tool_call_str =
     (case json_loads (clean_tags tool_call_str) of None \<Rightarrow> PNone | Some v \<Rightarrow> v)"

section \<open>The JSON encoder\<close>

text \<open>
  \<^verbatim>\<open>json.dumps\<close> with its defaults: items separated by a comma and a space, key and
  value by a colon and a space, and \<^verbatim>\<open>ensure_ascii\<close>, which leaves the printable
  ASCII characters but the quote and the backslash and escapes every other one.
\<close>

fun digits_nat :: "nat \<Rightarrow> string" where
  "digits_nat n =
     (if n < 10 then [char_of (48 + n)]
      else digits_nat (n div 10) @ [char_of (48 + n mod 10)])"

declare digits_nat.simps [simp del]

definition str_int :: "int \<Rightarrow> string" where
  "str_int i = (if i < 0 then CHR ''-'' # digits_nat (nat (- i)) else digits_nat (nat i))"

definition hex_digit :: "nat \<Rightarrow> char" where
  "hex_digit n = (if n < 10 then char_of (48 + n) else char_of (87 + n))"

definition escape_char :: "char \<Rightarrow> string" where
  "escape_char c =
     (if c = CHR 0x22 then [CHR 0x5C, CHR 0x22]
      else if c = CHR 0x5C then [CHR 0x5C, CHR 0x5C]
      else if c = CHR 0x0A then [CHR 0x5C, CHR ''n'']
      else if c = CHR 0x0D then [CHR 0x5C, CHR ''r'']
      else if c = CHR 0x09 then [CHR 0x5C, CHR ''t'']
      else if c = CHR 0x08 then [CHR 0x5C, CHR ''b'']
      else if c = CHR 0x0C then [CHR 0x5C, CHR ''f'']
      else if 32 \<le> (of_char c :: nat) \<and> (of_char c :: nat) \<le> 126 then [c]
      else [CHR 0x5C, CHR ''u'', CHR ''0'', CHR ''0'',
            hex_digit ((of_char c :: nat) div 16), hex_digit ((of_char c :: nat) mod 16)])"

definition encode_str :: "string \<Rightarrow> string" where
  "encode_str s = [CHR 0x22] @ concat (map escape_char s) @ [CHR 0x22]"

subsection \<open>The text of a float\<close>

text \<open>
  \<^verbatim>\<open>float.__repr__\<close>: the shortest decimal that rounds back to the double, the one
  nearest to it among several. With \<open>0.d\<^sub>1d\<^sub>2\<dots> \<times> 10\<^sup>p\<close> the decimal, it is written
  without exponent for \<open>-4 < p \<le> 16\<close> and with one otherwise.
\<close>

fun declen :: "nat \<Rightarrow> nat" where
  "declen n = (if n = 0 then 0 else Suc (declen (n div 10)))"

declare declen.simps [simp del]

text \<open>\<open>ilog10 q\<close> is the \<open>k\<close> with \<open>10\<^sup>k \<le> q < 10\<^sup>k\<^sup>+\<^sup>1\<close>, for \<open>q > 0\<close>.\<close>

definition ilog10 :: "rat \<Rightarrow> int" where
  "ilog10 q =
     (let (n, d) = quotient_of q;
          k = int (declen (nat n)) - int (declen (nat d))
      in if q < pow10 k then k - 1 else k)"

text \<open>The decimal of \<open>p\<close> digits, for \<open>p\<close> from the list, as its digits read as a number
  and the exponent of its last digit.\<close>

fun shortest :: "rat \<Rightarrow> int \<Rightarrow> nat list \<Rightarrow> int \<times> int" where
  "shortest a k [] = (\<lfloor>a / pow10 (k - 16)\<rfloor>, k - 16)"
| "shortest a k (p # ps) =
     (let u = pow10 (k - int p + 1);
          lo = \<lfloor>a / u\<rfloor>;
          hi = lo + 1;
          ok_lo = (round_double (of_int lo * u) = Fin a);
          ok_hi = (round_double (of_int hi * u) = Fin a)
      in if ok_lo \<and> ok_hi
         then (if a - of_int lo * u \<le> of_int hi * u - a then (lo, k - int p + 1)
               else (hi, k - int p + 1))
         else if ok_lo then (lo, k - int p + 1)
         else if ok_hi then (hi, k - int p + 1)
         else shortest a k ps)"

definition strip_zeros :: "string \<Rightarrow> string" where
  "strip_zeros ds = rev (dropWhile (\<lambda>c. c = CHR ''0'') (rev ds))"

definition repr_pos :: "rat \<Rightarrow> string" where
  "repr_pos a =
     (let (m, e) = shortest a (ilog10 a) [1, 2, 3, 4, 5, 6, 7, 8, 9, 10, 11, 12, 13, 14, 15, 16, 17];
          ds0 = digits_nat (nat m);
          p = int (length ds0) + e;
          ds = strip_zeros ds0;
          n = int (length ds)
      in if - 4 < p \<and> p \<le> 16 then
           (if p \<le> 0 then ''0.'' @ replicate (nat (- p)) (CHR ''0'') @ ds
            else if n \<le> p then ds @ replicate (nat (p - n)) (CHR ''0'') @ ''.0''
            else take (nat p) ds @ ''.'' @ drop (nat p) ds)
         else
           take 1 ds @ (if 1 < n then ''.'' @ drop 1 ds else [])
           @ ''e'' @ (if p - 1 < 0 then ''-'' else ''+'')
           @ (if \<bar>p - 1\<bar> < 10 then ''0'' else []) @ digits_nat (nat \<bar>p - 1\<bar>))"

fun float_repr :: "pyfloat \<Rightarrow> string" where
  "float_repr NaN = ''NaN''"
| "float_repr PosInf = ''Infinity''"
| "float_repr NegInf = ''-Infinity''"
| "float_repr NegZero = ''-0.0''"
| "float_repr (Fin q) =
     (if q = 0 then ''0.0'' else if q < 0 then ''-'' @ repr_pos (- q) else repr_pos q)"

subsection \<open>json.dumps\<close>

definition join :: "string \<Rightarrow> string list \<Rightarrow> string" where
  "join sep xs = (case xs of [] \<Rightarrow> [] | y # ys \<Rightarrow> y @ concat (map (\<lambda>z. sep @ z) ys))"

fun json_dumps :: "pyval \<Rightarrow> string" where
  "json_dumps PNone = ''null''"
| "json_dumps (PBool b) = (if b then ''true'' else ''false'')"
| "json_dumps (PInt i) = str_int i"
| "json_dumps (PFloat f) = float_repr f"
| "json_dumps (PStr s) = encode_str s"
| "json_dumps (PList xs) = ''['' @ join '', '' (map json_dumps xs) @ '']''"
| "json_dumps (PDict kvs) =
     ''{'' @ join '', '' (map (\<lambda>(k, v). encode_str k @ '': '' @ json_dumps v) kvs) @ ''}''"

section \<open>Tools\<close>

text \<open>
  A tool is a Python function object: its \<^verbatim>\<open>__name__\<close>, its \<^verbatim>\<open>__doc__\<close>, the
  attributes \<^verbatim>\<open>parameters\<close>, \<^verbatim>\<open>returns\<close> and \<^verbatim>\<open>tool_definition\<close> where they
  have been set, and what a call with keyword arguments does: it returns a value or
  raises an \<^verbatim>\<open>Exception\<close>.
\<close>

record callable =
  name :: string
  doc :: "string option"
  parameters :: "pyval option"
  returns :: "pyval option"
  tool_definition :: "pyval option"
  call :: "(string \<times> pyval) list \<Rightarrow> error + pyval"

text \<open>
  \<^verbatim>\<open>
  def tool(func):
      func.tool_definition = {
          "name": func.__name__,
          "description": func.__doc__,
          "parameters": getattr(func, 'parameters', {}),
          "returns": getattr(func, 'returns', {})
      }
      return func
  \<close>
\<close>

definition tool :: "callable \<Rightarrow> callable" where
  "tool func =
     func\<lparr>tool_definition := Some (PDict
       [(''name'', PStr (name func)),
        (''description'', (case doc func of None \<Rightarrow> PNone | Some d \<Rightarrow> PStr d)),
        (''parameters'', (case parameters func of None \<Rightarrow> PDict [] | Some p \<Rightarrow> p)),
        (''returns'', (case returns func of None \<Rightarrow> PDict [] | Some r \<Rightarrow> r))])\<rparr>"

section \<open>The agent\<close>

record message =
  role :: string
  content :: string

text \<open>
  A \<open>ToolAgent\<close> holds its tools and the client of the model service. The client is
  an external service: \<open>chat a m msgs\<close> is what
  \<^verbatim>\<open>client.chat.completions.create(model=m, messages=msgs)\<close> answers, the content of
  the first choice or the exception it raises.
\<close>

record agent =
  tools :: "callable list"
  chat :: "string \<Rightarrow> message list \<Rightarrow> error + string"

definition model :: string where
  "model = ''llama3-groq-70b-8192-tool-use-preview''"

definition nl :: string where
  "nl = [CHR 0x0A]"

text \<open>\<^verbatim>\<open>TOOL_SYSTEM_PROMPT.format(tools=tools_definitions)\<close>\<close>

definition system_prompt :: "string \<Rightarrow> string" where
  \<open>system_prompt tools_definitions =
     nl @ ''You are a function-calling AI model. You are provided with function signatures '' @ nl
     @ ''within <tools></tools> XML tags.  '' @ nl
     @ ''You may call one or more functions to assist with the user query. Don'' @ squote
     @ ''t make '' @ nl
     @ ''assumptions about what values to plug into functions. '' @ nl
     @ ''For each function call return a json object with function name and arguments '' @ nl
     @ ''within <tool_call></tool_call> XML tags as follows:'' @ nl
     @ nl
     @ ''<tool_call> '' @ nl
     @ ''{"name": "<function-name>", "arguments": <args-dict>} '' @ nl
     @ ''</tool_call>'' @ nl
     @ nl
     @ ''Here are the available tools:'' @ nl
     @ nl
     @ ''<tools> '' @ nl
     @ tools_definitions @ '' '' @ nl
     @ ''</tools>'' @ nl\<close>

text \<open>
  \<^verbatim>\<open>[json.dumps(tool.tool_definition) for tool in self.tools]\<close>: a function that was
  never decorated has no such attribute.
\<close>

fun tools_definitions :: "callable list \<Rightarrow> error + string list" where
  "tools_definitions [] = Inr []"
| "tools_definitions (t # ts) =
     (case tool_definition t of
        None \<Rightarrow> Inl (AttributeError (squote @ ''function'' @ squote
                  @ '' object has no attribute '' @ squote @ ''tool_definition'' @ squote))
      | Some d \<Rightarrow>
          (case tools_definitions ts of
             Inl e \<Rightarrow> Inl e
           | Inr ds \<Rightarrow> Inr (json_dumps d # ds)))"

text \<open>
  What a run does to the world is kept as a trace: every call of a tool, with the
  keyword arguments it was given, and every request to the model.
\<close>

datatype event =
    Tool_invoked string "(string \<times> pyval) list"
  | Model_asked "message list"

type_synonym outcome = "(error + pyval) \<times> event list"

text \<open>
  Lines 87 to 89, the reconciler:
  \<^verbatim>\<open>
  if func_name == "add":
      arguments = {"x": arguments.get("num1"), "y": arguments.get("num2")}
  \<close>
\<close>

definition reconcile :: "pyval \<Rightarrow> pyval \<Rightarrow> error + pyval" where
  "reconcile func_name arguments =
     (if func_name = PStr ''add'' then
        (case py_get arguments ''num1'' PNone of
           Inl e \<Rightarrow> Inl e
         | Inr x \<Rightarrow>
             (case py_get arguments ''num2'' PNone of
                Inl e \<Rightarrow> Inl e
              | Inr y \<Rightarrow> Inr (PDict [(''x'', x), (''y'', y)])))
      else Inr arguments)"

text \<open>\<^verbatim>\<open>json.dumps({"error": str(e)})\<close>, the answer of the handler in line 104.\<close>

definition error_answer :: "error \<Rightarrow> pyval" where
  "error_answer e = PStr (json_dumps (PDict [(''error'', PStr (str_exc e))]))"

text \<open>
  \<^verbatim>\<open>tool(**arguments)\<close>: the object behind \<^verbatim>\<open>**\<close> must be a mapping, or the call
  raises before the tool is entered.
\<close>

definition invoke :: "callable \<Rightarrow> pyval \<Rightarrow> outcome" where
  "invoke t arguments =
     (case arguments of
        PDict kw \<Rightarrow> (call t kw, [Tool_invoked (name t) kw])
      | _ \<Rightarrow> (Inl (TypeError (name t @ ''() argument after ** must be a mapping, not ''
                  @ type_name arguments)), []))"

text \<open>
  Lines 93 to 104, the \<^verbatim>\<open>try\<close> block for the tool whose name matched. Every
  \<^verbatim>\<open>Exception\<close> raised in it, by the tool or by the second request, becomes the
  error answer.
\<close>

definition try_tool :: "agent \<Rightarrow> message list \<Rightarrow> string \<Rightarrow> pyval \<Rightarrow> callable \<Rightarrow> outcome" where
  "try_tool a messages assistant_reply arguments t =
     (case invoke t arguments of
        (Inl e, evs) \<Rightarrow> (Inr (error_answer e), evs)
      | (Inr result, evs) \<Rightarrow>
          (let messages' = messages @
                 [\<lparr>role = ''assistant'', content = assistant_reply\<rparr>,
                  \<lparr>role = ''user'',
                   content = ''The result of '' @ name t @ '' is: '' @ json_dumps result\<rparr>]
           in case chat a model messages' of
                Inl e \<Rightarrow> (Inr (error_answer e), evs @ [Model_asked messages'])
              | Inr final \<Rightarrow> (Inr (PStr final), evs @ [Model_asked messages'])))"

text \<open>
  Lines 91 and 92, the loop over the registry. The first tool whose name is the
  requested one ends the run; when the loop runs out, so does the function, and Python
  returns \<^verbatim>\<open>None\<close>.
\<close>

fun dispatch :: "agent \<Rightarrow> message list \<Rightarrow> string \<Rightarrow> pyval \<Rightarrow> pyval \<Rightarrow> callable list \<Rightarrow> outcome" where
  "dispatch a messages assistant_reply func_name arguments [] = (Inr PNone, [])"
| "dispatch a messages assistant_reply func_name arguments (t # ts) =
     (if PStr (name t) = func_name then try_tool a messages assistant_reply arguments t
      else dispatch a messages assistant_reply func_name arguments ts)"

text \<open>Lines 81 to 107: \<open>run\<close> from the moment the first reply is there.\<close>

definition run_on_reply :: "agent \<Rightarrow> message list \<Rightarrow> string \<Rightarrow> outcome" where
  "run_on_reply a messages assistant_reply =
     (let tool_call = parse_tool_call assistant_reply
      in if truthy tool_call then
           (case py_get tool_call ''name'' PNone of
              Inl e \<Rightarrow> (Inl e, [])
            | Inr func_name \<Rightarrow>
                (case py_get tool_call ''arguments'' (PDict []) of
                   Inl e \<Rightarrow> (Inl e, [])
                 | Inr arguments \<Rightarrow>
                     (case reconcile func_name arguments of
                        Inl e \<Rightarrow> (Inl e, [])
                      | Inr arguments' \<Rightarrow>
                          dispatch a messages assistant_reply func_name arguments' (tools a))))
         else (Inr (PStr assistant_reply), []))"

text \<open>Lines 63 to 70: the conversation a run starts with.\<close>

definition first_messages :: "string list \<Rightarrow> string \<Rightarrow> message list" where
  "first_messages ds user_msg =
     [\<lparr>role = ''system'', content = system_prompt (join nl ds)\<rparr>,
      \<lparr>role = ''user'', content = user_msg\<rparr>]"

text \<open>The whole of \<^verbatim>\<open>ToolAgent.run\<close>.\<close>

definition run :: "agent \<Rightarrow> string \<Rightarrow> outcome" where
  "run a user_msg =
     (case tools_definitions (tools a) of
        Inl e \<Rightarrow> (Inl e, [])
      | Inr ds \<Rightarrow>
          (let messages = first_messages ds user_msg
           in case chat a model messages of
                Inl e \<Rightarrow> (Inl e, [Model_asked messages])
              | Inr assistant_reply \<Rightarrow>
                  (case run_on_reply a messages assistant_reply of
                     (r, evs) \<Rightarrow> (r, Model_asked messages # evs))))"

section \<open>Arithmetic and comparison of Python values\<close>

text \<open>
  The operators the two local tools use: \<^verbatim>\<open>+\<close>, true division by a length and
  \<^verbatim>\<open>>\<close>. A \<^verbatim>\<open>bool\<close> counts as the int 0 or 1. Float arithmetic is IEEE
  arithmetic: the exact result, rounded.
\<close>

datatype number = NInt int | NFloat pyfloat

fun as_number :: "pyval \<Rightarrow> number option" where
  "as_number (PBool b) = Some (NInt (if b then 1 else 0))"
| "as_number (PInt i) = Some (NInt i)"
| "as_number (PFloat f) = Some (NFloat f)"
| "as_number v = None"

definition float_of_int :: "int \<Rightarrow> error + pyfloat" where
  "float_of_int i =
     (let r = nearest (of_int i)
      in if pow2 1024 \<le> \<bar>r\<bar> then Inl (OverflowError ''int too large to convert to float'')
         else Inr (Fin r))"

fun fadd :: "pyfloat \<Rightarrow> pyfloat \<Rightarrow> pyfloat" where
  "fadd NaN g = NaN"
| "fadd f NaN = NaN"
| "fadd PosInf NegInf = NaN"
| "fadd NegInf PosInf = NaN"
| "fadd PosInf g = PosInf"
| "fadd f PosInf = PosInf"
| "fadd NegInf g = NegInf"
| "fadd f NegInf = NegInf"
| "fadd NegZero NegZero = NegZero"
| "fadd NegZero (Fin b) = Fin b"
| "fadd (Fin a) NegZero = Fin a"
| "fadd (Fin a) (Fin b) = round_double (a + b)"

fun num_add :: "number \<Rightarrow> number \<Rightarrow> error + pyval" where
  "num_add (NInt i) (NInt j) = Inr (PInt (i + j))"
| "num_add (NInt i) (NFloat g) =
     (case float_of_int i of Inl e \<Rightarrow> Inl e | Inr f \<Rightarrow> Inr (PFloat (fadd f g)))"
| "num_add (NFloat f) (NInt j) =
     (case float_of_int j of Inl e \<Rightarrow> Inl e | Inr g \<Rightarrow> Inr (PFloat (fadd f g)))"
| "num_add (NFloat f) (NFloat g) = Inr (PFloat (fadd f g))"

definition unsupported :: "string \<Rightarrow> pyval \<Rightarrow> pyval \<Rightarrow> error" where
  "unsupported opr x y =
     TypeError (''unsupported operand type(s) for '' @ opr @ '': '' @ squote @ type_name x
       @ squote @ '' and '' @ squote @ type_name y @ squote)"

text \<open>\<^verbatim>\<open>x + y\<close>\<close>

definition py_add :: "pyval \<Rightarrow> pyval \<Rightarrow> error + pyval" where
  \<open>py_add x y =
     (case x of
        PStr a \<Rightarrow>
          (case y of
             PStr b \<Rightarrow> Inr (PStr (a @ b))
           | _ \<Rightarrow> Inl (TypeError (''can only concatenate str (not "'' @ type_name y
                     @ ''") to str'')))
      | PList a \<Rightarrow>
          (case y of
             PList b \<Rightarrow> Inr (PList (a @ b))
           | _ \<Rightarrow> Inl (TypeError (''can only concatenate list (not "'' @ type_name y
                     @ ''") to list'')))
      | _ \<Rightarrow>
          (case (as_number x, as_number y) of
             (Some m, Some n) \<Rightarrow> num_add m n
           | _ \<Rightarrow> Inl (unsupported ''+'' x y)))\<close>

text \<open>
  \<^verbatim>\<open>sum(xs)\<close> adds the items to 0 from left to right. (CPython from 3.12 on
  compensates the rounding errors of float items; the results agree wherever the
  partial sums are exact.)
\<close>

fun sum_from :: "pyval \<Rightarrow> pyval list \<Rightarrow> error + pyval" where
  "sum_from acc [] = Inr acc"
| "sum_from acc (x # xs) =
     (case py_add acc x of Inl e \<Rightarrow> Inl e | Inr acc' \<Rightarrow> sum_from acc' xs)"

definition py_sum :: "pyval list \<Rightarrow> error + pyval" where
  "py_sum xs = sum_from (PInt 0) xs"

text \<open>
  \<^verbatim>\<open>x / n\<close> for an int \<open>n\<close>, as in \<^verbatim>\<open>sum(scores) / len(scores)\<close>. The quotient
  of two ints is the nearest double to the exact quotient, or an \<^verbatim>\<open>OverflowError\<close>.
\<close>

fun fdiv :: "pyfloat \<Rightarrow> rat \<Rightarrow> pyfloat" where
  "fdiv NaN b = NaN"
| "fdiv PosInf b = (if 0 < b then PosInf else NegInf)"
| "fdiv NegInf b = (if 0 < b then NegInf else PosInf)"
| "fdiv NegZero b = (if 0 < b then NegZero else Fin 0)"
| "fdiv (Fin a) b =
     (if a = 0 then (if 0 < b then Fin 0 else NegZero) else round_double (a / b))"

fun num_truediv :: "number \<Rightarrow> int \<Rightarrow> error + pyval" where
  "num_truediv (NInt i) n =
     (if n = 0 then Inl (ZeroDivisionError ''division by zero'')
      else if i = 0 then Inr (PFloat (if 0 < n then Fin 0 else NegZero))
      else
        (case round_double (of_int i / of_int n) of
           PosInf \<Rightarrow> Inl (OverflowError ''integer division result too large for a float'')
         | NegInf \<Rightarrow> Inl (OverflowError ''integer division result too large for a float'')
         | q \<Rightarrow> Inr (PFloat q)))"
| "num_truediv (NFloat f) n =
     (let r = nearest (of_int n)
      in if pow2 1024 \<le> \<bar>r\<bar> then Inl (OverflowError ''int too large to convert to float'')
         else if r = 0 then Inl (ZeroDivisionError ''float division by zero'')
         else Inr (PFloat (fdiv f r)))"

definition py_truediv :: "pyval \<Rightarrow> int \<Rightarrow> error + pyval" where
  "py_truediv x n =
     (case as_number x of
        Some m \<Rightarrow> num_truediv m n
      | None \<Rightarrow> Inl (unsupported ''/'' x (PInt n)))"

text \<open>
  \<^verbatim>\<open>x == y\<close> and \<^verbatim>\<open>x > y\<close>. Numbers compare by value across int and float,
  strings and lists lexicographically, dicts only for equality; every other pair is
  unequal, and raises \<^verbatim>\<open>TypeError\<close> when ordered.
\<close>

fun rank :: "number \<Rightarrow> (int \<times> rat) option" where
  "rank (NInt i) = Some (0, of_int i)"
| "rank (NFloat (Fin a)) = Some (0, a)"
| "rank (NFloat NegZero) = Some (0, 0)"
| "rank (NFloat PosInf) = Some (1, 0)"
| "rank (NFloat NegInf) = Some (- 1, 0)"
| "rank (NFloat NaN) = None"

definition num_eq :: "number \<Rightarrow> number \<Rightarrow> bool" where
  "num_eq m n = (case (rank m, rank n) of (Some p, Some q) \<Rightarrow> p = q | _ \<Rightarrow> False)"

definition num_gt :: "number \<Rightarrow> number \<Rightarrow> bool" where
  "num_gt m n =
     (case (rank m, rank n) of
        (Some (i, a), Some (j, b)) \<Rightarrow> j < i \<or> (i = j \<and> b < a)
      | _ \<Rightarrow> False)"

fun str_gt :: "string \<Rightarrow> string \<Rightarrow> bool" where
  "str_gt [] t = False"
| "str_gt (a # s) [] = True"
| "str_gt (a # s) (b # t) =
     (if a = b then str_gt s t else (of_char b :: nat) < of_char a)"

fun py_eq :: "pyval \<Rightarrow> pyval \<Rightarrow> bool" where
  "py_eq PNone y = (y = PNone)"
| "py_eq (PStr a) y = (y = PStr a)"
| "py_eq (PList xs) y = (case y of PList ys \<Rightarrow> list_all2 py_eq xs ys | _ \<Rightarrow> False)"
| "py_eq (PDict kvs) y =
     (case y of
        PDict kws \<Rightarrow>
          length kvs = length kws \<and>
          list_all (\<lambda>(k, v). case map_of kws k of None \<Rightarrow> False | Some w \<Rightarrow> py_eq v w) kvs
      | _ \<Rightarrow> False)"
| "py_eq x y =
     (case (as_number x, as_number y) of (Some m, Some n) \<Rightarrow> num_eq m n | _ \<Rightarrow> False)"

definition not_ordered :: "pyval \<Rightarrow> pyval \<Rightarrow> error" where
  "not_ordered x y =
     TypeError (squote @ ''>'' @ squote @ '' not supported between instances of '' @ squote
       @ type_name x @ squote @ '' and '' @ squote @ type_name y @ squote)"

fun py_gt :: "pyval \<Rightarrow> pyval \<Rightarrow> error + bool"
  and list_gt :: "pyval list \<Rightarrow> pyval list \<Rightarrow> error + bool"
where
  "py_gt (PStr a) y = (case y of PStr b \<Rightarrow> Inr (str_gt a b) | _ \<Rightarrow> Inl (not_ordered (PStr a) y))"
| "py_gt (PList xs) y =
     (case y of PList ys \<Rightarrow> list_gt xs ys | _ \<Rightarrow> Inl (not_ordered (PList xs) y))"
| "py_gt x y =
     (case (as_number x, as_number y) of
        (Some m, Some n) \<Rightarrow> Inr (num_gt m n)
      | _ \<Rightarrow> Inl (not_ordered x y))"
| "list_gt [] ys = Inr False"
| "list_gt (x # xs) [] = Inr True"
| "list_gt (x # xs) (y # ys) = (if py_eq x y then list_gt xs ys else py_gt x y)"

section \<open>The local tools\<close>

subsection \<open>add\<close>

text \<open>
  \<^verbatim>\<open>
  @tool
  def add(x: int, y: int) -> int:
      """Add two numbers."""
      return x + y
  \<close>
  The annotations are not checked when the function runs. A call with keywords binds
  them to \<open>x\<close> and \<open>y\<close>; a keyword that is neither, or a parameter left without a
  value, raises \<^verbatim>\<open>TypeError\<close>.
\<close>

definition missing_args :: "string \<Rightarrow> string list \<Rightarrow> error" where
  "missing_args f ps =
     TypeError (f @ ''() missing '' @ digits_nat (length ps) @ '' required positional argument''
       @ (case ps of
            [p] \<Rightarrow> '': '' @ squote @ p @ squote
          | _ \<Rightarrow> ''s: '' @ join '' and '' (map (\<lambda>p. squote @ p @ squote) ps)))"

definition add_call :: "(string \<times> pyval) list \<Rightarrow> error + pyval" where
  "add_call kw =
     (case filter (\<lambda>(k, v). k \<noteq> ''x'' \<and> k \<noteq> ''y'') kw of
        (k, v) # rest \<Rightarrow>
          Inl (TypeError (''add() got an unexpected keyword argument '' @ squote @ k @ squote))
      | [] \<Rightarrow>
          (case (map_of kw ''x'', map_of kw ''y'') of
             (Some x, Some y) \<Rightarrow> py_add x y
           | _ \<Rightarrow> Inl (missing_args ''add'' (filter (\<lambda>p. map_of kw p = None) [''x'', ''y'']))))"

definition add :: callable where
  "add = tool \<lparr>name = ''add'', doc = Some ''Add two numbers.'', parameters = None,
               returns = None, tool_definition = None, call = add_call\<rparr>"

subsection \<open>process\_data\<close>

text \<open>
  \<^verbatim>\<open>
  def process_data(data: List[Dict], operation: str = "count") -> Dict:
      if operation == "count":
          return {"count": len(data)}
      elif operation == "average":
          scores = [article.get("score", 0) for article in data if "score" in article]
          return {"average_score": sum(scores) / len(scores) if scores else 0}
      elif operation == "max":
          max_article = max(data, key=lambda x: x.get("score", 0), default=None)
          return {"max_score_article": max_article} if max_article else {}
      else:
          return {"error": "Invalid operation"}
  \<close>
  The data are taken as the annotation says, a list of dicts; what the dicts hold is any
  value.
\<close>

type_synonym article = "(string \<times> pyval) list"

definition score_key :: "article \<Rightarrow> pyval" where
  "score_key x = dict_get x ''score'' (PInt 0)"

text \<open>\<^verbatim>\<open>max\<close> keeps the first item whose key no later key exceeds.\<close>

fun max_from :: "article \<Rightarrow> article list \<Rightarrow> error + article" where
  "max_from best [] = Inr best"
| "max_from best (x # xs) =
     (case py_gt (score_key x) (score_key best) of
        Inl e \<Rightarrow> Inl e
      | Inr b \<Rightarrow> max_from (if b then x else best) xs)"

definition process_data :: "article list \<Rightarrow> string \<Rightarrow> error + pyval" where
  "process_data data operation =
     (if operation = ''count'' then Inr (PDict [(''count'', PInt (int (length data)))])
      else if operation = ''average'' then
        (let scores = map score_key (filter (\<lambda>article. dict_has article ''score'') data)
         in if scores \<noteq> [] then
              (case py_sum scores of
                 Inl e \<Rightarrow> Inl e
               | Inr tot \<Rightarrow>
                   (case py_truediv tot (int (length scores)) of
                      Inl e \<Rightarrow> Inl e
                    | Inr q \<Rightarrow> Inr (PDict [(''average_score'', q)])))
            else Inr (PDict [(''average_score'', PInt 0)]))
      else if operation = ''max'' then
        (case data of
           [] \<Rightarrow> Inr (PDict [])
         | x # xs \<Rightarrow>
             (case max_from x xs of
                Inl e \<Rightarrow> Inl e
              | Inr max_article \<Rightarrow>
                  if max_article \<noteq> [] then Inr (PDict [(''max_score_article'', PDict max_article)])
                  else Inr (PDict [])))
      else Inr (PDict [(''error'', PStr ''Invalid operation'')]))"

subsection \<open>fetch\_weather, with the service out of reach\<close>

text \<open>
  \<^verbatim>\<open>
  @tool
  def fetch_weather(city: str, units: str = "metric") -> Dict:
      api_key = os.getenv("WEATHER_API_KEY")
      url = f"http://api.openweathermap.org/data/2.5/weather?q={city}&units={units}&appid={api_key}"
      try:
          response = requests.get(url)
          ...
      except Exception as e:
          return {"error": f"Failed to fetch weather data: {str(e)}"}
  \<close>
  The answer of the weather service is not the program's to decide. The model takes the
  case where \<^verbatim>\<open>requests.get\<close> raises, with \<open>detail\<close> the text of the exception:
  once the keywords are bound, the handler returns the error dict.
\<close>

definition fetch_weather_call :: "string \<Rightarrow> (string \<times> pyval) list \<Rightarrow> error + pyval" where
  "fetch_weather_call detail kw =
     (case filter (\<lambda>(k, v). k \<noteq> ''city'' \<and> k \<noteq> ''units'') kw of
        (k, v) # rest \<Rightarrow>
          Inl (TypeError (''fetch_weather() got an unexpected keyword argument ''
                 @ squote @ k @ squote))
      | [] \<Rightarrow>
          if map_of kw ''city'' = None then Inl (missing_args ''fetch_weather'' [''city''])
          else Inr (PDict [(''error'', PStr (''Failed to fetch weather data: '' @ detail))]))"

definition fetch_weather_doc :: string where
  "fetch_weather_doc =
     nl @ ''    Fetch the current weather for a specified city.'' @ nl
     @ nl
     @ ''    Args:'' @ nl
     @ ''        city (str): City name to fetch the weather for.'' @ nl
     @ ''        units (str): Units of measurement (metric, imperial).'' @ nl
     @ nl
     @ ''    Returns:'' @ nl
     @ ''        Dict: Weather details for the city.'' @ nl
     @ ''    ''"

definition fetch_weather_unreachable :: "string \<Rightarrow> callable" where
  "fetch_weather_unreachable detail =
     tool \<lparr>name = ''fetch_weather'', doc = Some fetch_weather_doc, parameters = None,
           returns = None, tool_definition = None, call = fetch_weather_call detail\<rparr>"

section \<open>Properties\<close>

subsection \<open>The parser\<close>

lemma clean_tags_no_tag:
  "\<not> sublist open_tag s \<Longrightarrow> \<not> sublist close_tag s \<Longrightarrow> clean_tags s = s"
proof (induction s rule: clean_tags.induct)
  case 1
  show ?case by simp
next
  case (2 c cs)
  have no_open: "\<not> prefix open_tag (c # cs)"
    using 2(4) prefix_imp_sublist by blast
  have no_close: "\<not> prefix close_tag (c # cs)"
    using 2(5) prefix_imp_sublist by blast
  have "\<not> sublist open_tag cs" "\<not> sublist close_tag cs"
    using 2(4,5) by (auto simp: sublist_Cons_right)
  with 2(3) no_open no_close have "clean_tags cs = cs" by simp
  with no_open no_close show ?case by simp
qed

text \<open>
  Claim C2, as the code has it. Text that holds neither \<^verbatim>\<open><tool_call>\<close> nor
  \<^verbatim>\<open></tool_call>\<close> reaches the decoder unchanged, so \<open>parse_tool_call\<close> returns
  what \<^verbatim>\<open>json.loads\<close> makes of the whole text: \<^verbatim>\<open>None\<close> when the text is not a
  JSON document, the decoded value when it is one. The parser never looks whether the
  tags were there.
\<close>

theorem parse_tool_call_untagged:
  "\<not> sublist open_tag s \<Longrightarrow> \<not> sublist close_tag s \<Longrightarrow>
   parse_tool_call s = (case json_loads s of None \<Rightarrow> PNone | Some v \<Rightarrow> v)"
  by (simp add: parse_tool_call_def clean_tags_no_tag)

theorem parse_tool_call_untagged_witness:
  \<open>\<not> sublist open_tag ''It is sunny, 21 degrees.''
   \<and> \<not> sublist close_tag ''It is sunny, 21 degrees.''
   \<and> json_loads ''It is sunny, 21 degrees.'' = None
   \<and> parse_tool_call ''It is sunny, 21 degrees.'' = PNone\<close>
proof -
  have a: \<open>\<not> sublist open_tag ''It is sunny, 21 degrees.''\<close> by code_simp
  have b: \<open>\<not> sublist close_tag ''It is sunny, 21 degrees.''\<close> by code_simp
  have c: \<open>json_loads ''It is sunny, 21 degrees.'' = None\<close> by code_simp
  show ?thesis using parse_tool_call_untagged [OF a b] a b c by simp
qed

text \<open>
  Claim C2 as the spec states it fails: the text \<^verbatim>\<open>{"name": "add"}\<close> holds no tag and
  is parsed to a dict.
\<close>

theorem parse_tool_call_untagged_counterexample:
  \<open>\<not> sublist open_tag ''{"name": "add"}'' \<and> \<not> sublist close_tag ''{"name": "add"}''
   \<and> parse_tool_call ''{"name": "add"}'' = PDict [(''name'', PStr ''add'')]
   \<and> parse_tool_call ''{"name": "add"}'' \<noteq> PNone\<close>
  by code_simp

subsection \<open>Registration\<close>

text \<open>
  Claim C7. Decorating a function twice leaves the same \<open>tool_definition\<close> as
  decorating it once (the second decoration changes nothing at all), and the decorated
  function answers every call as the function itself does.
\<close>

theorem tool_idempotent:
  "tool_definition (tool (tool f)) = tool_definition (tool f) \<and> tool (tool f) = tool f
   \<and> call (tool f) kw = call f kw"
  by (simp add: tool_def)

subsection \<open>process\_data\<close>

text \<open>
  Claim C8. On the three articles with the scores 10, 20 and 30 the operation
  \<^verbatim>\<open>"average"\<close> returns \<^verbatim>\<open>{"average_score": 20.0}\<close>: the quotient of 60 by 3 as a
  float, which Python's \<^verbatim>\<open>==\<close> holds equal to the \<^verbatim>\<open>{"average_score": 20}\<close> of
  the claim and of the repository's test.
\<close>

theorem process_data_average_scenario:
  "process_data [[(''score'', PInt 10)], [(''score'', PInt 20)], [(''score'', PInt 30)]] ''average''
     = Inr (PDict [(''average_score'', PFloat (Fin 20))])
   \<and> py_eq (PDict [(''average_score'', PFloat (Fin 20))]) (PDict [(''average_score'', PInt 20)])"
  by code_simp

text \<open>
  Claim C10. An operation that is none of \<^verbatim>\<open>"count"\<close>, \<^verbatim>\<open>"average"\<close> and
  \<^verbatim>\<open>"max"\<close> returns \<^verbatim>\<open>{"error": "Invalid operation"}\<close> whatever the data are, and
  raises nothing.
\<close>

theorem process_data_invalid_operation:
  "operation \<noteq> ''count'' \<Longrightarrow> operation \<noteq> ''average'' \<Longrightarrow> operation \<noteq> ''max'' \<Longrightarrow>
   process_data data operation = Inr (PDict [(''error'', PStr ''Invalid operation'')])"
  by (simp add: process_data_def)

theorem process_data_invalid_operation_witness:
  "''sum'' \<noteq> ''count'' \<and> ''sum'' \<noteq> ''average'' \<and> ''sum'' \<noteq> ''max''
   \<and> process_data [[(''score'', PInt 10)], [(''score'', PInt 20)]] ''sum''
       = Inr (PDict [(''error'', PStr ''Invalid operation'')])"
  using process_data_invalid_operation [of "''sum''" "[[(''score'', PInt 10)], [(''score'', PInt 20)]]"]
  by simp

subsection \<open>The average and its divisor\<close>

lemma bitlen_lower: "0 < n \<Longrightarrow> 2 ^ (bitlen n - 1) \<le> n"
proof (induction n rule: bitlen.induct)
  case (1 n)
  show ?case
  proof (cases "n div 2 = 0")
    case True
    with 1(2) have "n = 1" by (simp add: div_eq_0_iff) 
    then show ?thesis by (simp add: bitlen.simps)
  next
    case False
    then have pos: "0 < n div 2" by simp
    with 1 have ih: "2 ^ (bitlen (n div 2) - 1) \<le> n div 2" by simp
    have bl: "bitlen n = Suc (bitlen (n div 2))"
      using 1(2) by (subst bitlen.simps) simp
    have "0 < bitlen (n div 2)" using pos by (subst bitlen.simps) simp
    then have "(2::nat) ^ (bitlen n - 1) = 2 * 2 ^ (bitlen (n div 2) - 1)"
      using bl by (cases "bitlen (n div 2)") simp_all
    also have "\<dots> \<le> 2 * (n div 2)" using ih by simp
    also have "\<dots> \<le> n" by simp
    finally show ?thesis .
  qed
qed

lemma bitlen_upper: "n < 2 ^ bitlen n"
proof (induction n rule: bitlen.induct)
  case (1 n)
  show ?case
  proof (cases "n = 0")
    case True
    then show ?thesis by simp
  next
    case False
    with 1 have ih: "n div 2 < 2 ^ bitlen (n div 2)" by simp
    have bl: "bitlen n = Suc (bitlen (n div 2))"
      using False by (subst bitlen.simps) simp
    have "n < 2 * (n div 2 + 1)" by presburger
    also have "\<dots> \<le> 2 * 2 ^ bitlen (n div 2)" using ih by simp
    finally show ?thesis using bl by simp
  qed
qed

lemma pow2_power_int: "pow2 e = power_int 2 e"
  by (simp add: pow2_def power_int_def inverse_eq_divide power_one_over)

lemma pow2_pos: "0 < pow2 e"
  by (simp add: pow2_power_int)

lemma pow2_ilog2_le:
  assumes "0 < q"
  shows "pow2 (ilog2 q) \<le> q"
proof -
  obtain n d where qd: "quotient_of q = (n, d)" by (cases "quotient_of q")
  have dpos: "0 < d" using qd quotient_of_denom_pos by blast
  have q_eq: "q = of_int n / of_int d" using qd quotient_of_div by blast
  have npos: "0 < n" using assms dpos q_eq by (simp add: zero_less_divide_iff)
  define k where "k = int (bitlen (nat n)) - int (bitlen (nat d))"
  have il: "ilog2 q = (if q < pow2 k then k - 1 else k)"
    by (simp add: ilog2_def qd k_def Let_def)
  show ?thesis
  proof (cases "q < pow2 k")
    case False
    with il show ?thesis by simp
  next
    case True
    have bn: "0 < bitlen (nat n)" using npos by (subst bitlen.simps) simp
    have "0 < nat n" using npos by simp
    then have lo: "(2::nat) ^ (bitlen (nat n) - 1) \<le> nat n" by (rule bitlen_lower)
    have hi: "nat d < 2 ^ bitlen (nat d)" by (rule bitlen_upper)
    have lo': "(2::rat) ^ (bitlen (nat n) - 1) \<le> of_int n"
    proof -
      have "(of_nat (2 ^ (bitlen (nat n) - 1)) :: rat) \<le> of_nat (nat n)"
        using lo of_nat_le_iff by blast
      then show ?thesis using npos by simp
    qed
    have hi': "(of_int d :: rat) \<le> 2 ^ bitlen (nat d)"
    proof -
      have "(of_nat (nat d) :: rat) < of_nat (2 ^ bitlen (nat d))"
        using hi of_nat_less_iff by blast
      then show ?thesis using dpos by simp
    qed
    have "k - 1 = int (bitlen (nat n) - 1) - int (bitlen (nat d))"
      using bn by (simp add: k_def)
    then have "pow2 (k - 1) = 2 ^ (bitlen (nat n) - 1) / 2 ^ bitlen (nat d)"
      by (simp add: pow2_power_int power_int_diff)
    also have "\<dots> \<le> of_int n / 2 ^ bitlen (nat d)"
      using lo' by (simp add: divide_right_mono)
    also have "\<dots> \<le> of_int n / of_int d"
      using hi' dpos npos by (simp add: frac_le)
    finally show ?thesis using il True q_eq by simp
  qed
qed

lemma round_half_even_ge: "1 \<le> q \<Longrightarrow> 1 \<le> round_half_even q"
proof -
  assume "1 \<le> q"
  then have "1 \<le> \<lfloor>q\<rfloor>" by simp
  then show ?thesis by (simp add: round_half_even_def Let_def)
qed

lemma nearest_pos:
  assumes "1 \<le> q"
  shows "0 < nearest q"
proof -
  define e where "e = max (ilog2 \<bar>q\<bar>) (- 1022)"
  define u where "u = pow2 (e - 52)"
  have upos: "0 < u" by (simp add: u_def pow2_pos)
  have ne: "nearest q = of_int (round_half_even (q / u)) * u"
    using assms by (simp add: nearest_def e_def u_def Let_def)
  have "u \<le> q"
  proof (cases "ilog2 \<bar>q\<bar> \<le> - 1022")
    case True
    then have "e = - 1022" by (simp add: e_def)
    then have "u = pow2 (- 1074)" by (simp add: u_def)
    then have "u \<le> 1" by (simp add: pow2_def)
    with assms show ?thesis by simp
  next
    case False
    then have "e = ilog2 q" using assms by (simp add: e_def)
    then have "u = pow2 (ilog2 q) / 2 ^ 52"
      by (simp add: u_def pow2_power_int power_int_diff)
    also have "\<dots> \<le> pow2 (ilog2 q)" using pow2_pos [of "ilog2 q"] by simp
    also have "\<dots> \<le> q" using assms by (intro pow2_ilog2_le) simp
    finally show ?thesis .
  qed
  then have "1 \<le> q / u" using upos by (simp add: le_divide_eq)
  then have "1 \<le> round_half_even (q / u)" by (rule round_half_even_ge)
  then show ?thesis using upos ne by simp
qed

lemma float_of_int_not_zdiv: "float_of_int i \<noteq> Inl (ZeroDivisionError m)"
  by (simp add: float_of_int_def Let_def)

lemma num_add_not_zdiv: "num_add x y \<noteq> Inl (ZeroDivisionError m)"
  by (cases x; cases y) (auto simp: float_of_int_def Let_def split: sum.splits)

lemma py_add_not_zdiv: "py_add x y \<noteq> Inl (ZeroDivisionError m)"
  by (auto simp: py_add_def unsupported_def num_add_not_zdiv split: pyval.splits option.splits)

lemma sum_from_not_zdiv: "sum_from acc xs \<noteq> Inl (ZeroDivisionError m)"
  by (induction xs arbitrary: acc) (auto simp: py_add_not_zdiv split: sum.splits)

lemma num_truediv_not_zdiv:
  assumes "0 < n"
  shows "num_truediv x n \<noteq> Inl (ZeroDivisionError m)"
proof (cases x)
  case (NInt i)
  with assms show ?thesis by (auto split: pyfloat.splits)
next
  case (NFloat f)
  have "0 < nearest (of_int n)" using assms by (intro nearest_pos) simp
  with NFloat show ?thesis by (simp add: Let_def)
qed

lemma py_truediv_not_zdiv: "0 < n \<Longrightarrow> py_truediv x n \<noteq> Inl (ZeroDivisionError m)"
  by (simp add: py_truediv_def unsupported_def num_truediv_not_zdiv split: option.splits)

text \<open>
  Claim C9. When no article has the key \<^verbatim>\<open>"score"\<close> (the empty list among them),
  the operation \<^verbatim>\<open>"average"\<close> returns \<^verbatim>\<open>{"average_score": 0}\<close>. The division is
  done only for a non-empty list of scores, by its length: whatever the data are, the
  operation never ends in a \<^verbatim>\<open>ZeroDivisionError\<close>.
\<close>

theorem process_data_average_guarded:
  "(list_all (\<lambda>article. \<not> dict_has article ''score'') data \<longrightarrow>
      process_data data ''average'' = Inr (PDict [(''average_score'', PInt 0)]))
   \<and> process_data data' ''average'' \<noteq> Inl (ZeroDivisionError m)"
proof
  show "list_all (\<lambda>article. \<not> dict_has article ''score'') data \<longrightarrow>
      process_data data ''average'' = Inr (PDict [(''average_score'', PInt 0)])"
  proof
    assume "list_all (\<lambda>article. \<not> dict_has article ''score'') data"
    then have "filter (\<lambda>article. dict_has article ''score'') data = []"
      by (simp add: list_all_iff filter_empty_conv)
    then show "process_data data ''average'' = Inr (PDict [(''average_score'', PInt 0)])"
      by (simp add: process_data_def)
  qed
next
  define scores where "scores = map score_key (filter (\<lambda>article. dict_has article ''score'') data')"
  show "process_data data' ''average'' \<noteq> Inl (ZeroDivisionError m)"
  proof (cases "scores = []")
    case True
    then show ?thesis by (simp add: process_data_def scores_def)
  next
    case False
    then have "0 < int (length scores)" by simp
    then have "py_truediv x (int (length scores)) \<noteq> Inl (ZeroDivisionError m)" for x
      by (rule py_truediv_not_zdiv)
    moreover have "py_sum scores \<noteq> Inl (ZeroDivisionError m)"
      by (simp add: py_sum_def sum_from_not_zdiv)
    ultimately show ?thesis using False
      unfolding process_data_def scores_def [symmetric] Let_def
      by (auto split: sum.splits)
  qed
qed

theorem process_data_average_guarded_witness:
  "list_all (\<lambda>article. \<not> dict_has article ''score'') [[(''title'', PStr ''a'')], []]
   \<and> process_data [[(''title'', PStr ''a'')], []] ''average'' = Inr (PDict [(''average_score'', PInt 0)])
   \<and> process_data [] ''average'' = Inr (PDict [(''average_score'', PInt 0)])
   \<and> process_data [[(''score'', PInt 3)], [(''score'', PInt 4)]] ''average''
        = Inr (PDict [(''average_score'', PFloat (Fin (7 / 2)))])"
proof -
  have h: "list_all (\<lambda>article. \<not> dict_has article ''score'') [[(''title'', PStr ''a'')], []]"
    by (simp add: dict_has_def)
  have e: "list_all (\<lambda>article. \<not> dict_has article ''score'') []" by simp
  have c: "process_data [[(''score'', PInt 3)], [(''score'', PInt 4)]] ''average''
        = Inr (PDict [(''average_score'', PFloat (Fin (7 / 2)))])" by code_simp
  show ?thesis
    using process_data_average_guarded [of "[[(''title'', PStr ''a'')], []]"]
      process_data_average_guarded [of "[]"] h e c by simp
qed


subsection \<open>The run, once the reply is there\<close>

lemma dispatch_find:
  "dispatch a msgs reply func_name args ts =
     (case find (\<lambda>t. PStr (name t) = func_name) ts of
        None \<Rightarrow> (Inr PNone, [])
      | Some t \<Rightarrow> try_tool a msgs reply args t)"
  by (induction ts) auto

lemma try_tool_invoked:
  "Tool_invoked n kw \<in> set (snd (try_tool a msgs reply args t)) \<Longrightarrow> args = PDict kw"
  by (cases args) (auto simp: try_tool_def invoke_def Let_def split: sum.splits)

lemma dispatch_invoked:
  "Tool_invoked n kw \<in> set (snd (dispatch a msgs reply func_name args ts)) \<Longrightarrow> args = PDict kw"
  by (auto simp: dispatch_find try_tool_invoked split: option.splits)

lemma try_tool_raises:
  "fst (invoke t args) = Inl e \<Longrightarrow> fst (try_tool a msgs reply args t) = Inr (error_answer e)"
  by (cases "invoke t args") (simp add: try_tool_def)

lemma run_on_reply_dict:
  assumes "parse_tool_call reply = PDict tc" and "tc \<noteq> []"
  shows "run_on_reply a msgs reply =
     (case reconcile (dict_get tc ''name'' PNone) (dict_get tc ''arguments'' (PDict [])) of
        Inl e \<Rightarrow> (Inl e, [])
      | Inr args \<Rightarrow> dispatch a msgs reply (dict_get tc ''name'' PNone) args (tools a))"
  using assms by (simp add: run_on_reply_def)

lemma reconcile_other:
  "func_name \<noteq> PStr ''add'' \<Longrightarrow> reconcile func_name arguments = Inr arguments"
  by (simp add: reconcile_def)

lemma encode_str_error: \<open>encode_str ''error'' = ''"error"''\<close>
  by code_simp

lemma json_dumps_error:
  \<open>json_dumps (PDict [(''error'', PStr m)]) = ''{"error": '' @ encode_str m @ ''}''\<close>
  by (simp add: join_def encode_str_error)

text \<open>
  Claim C6. For a parsed call whose name is not \<^verbatim>\<open>"add"\<close> the reconciler returns
  the arguments it was given; the loop over the registry is entered with the very
  arguments the parser produced, and a tool that is invoked receives them.
\<close>

theorem reconcile_identity_off_table:
  assumes "parse_tool_call reply = PDict tc" and "tc \<noteq> []"
    and "dict_get tc ''name'' PNone \<noteq> PStr ''add''"
  shows "reconcile (dict_get tc ''name'' PNone) arguments = Inr arguments
    \<and> run_on_reply a msgs reply
        = dispatch a msgs reply (dict_get tc ''name'' PNone)
            (dict_get tc ''arguments'' (PDict [])) (tools a)
    \<and> (\<forall>n kw. Tool_invoked n kw \<in> set (snd (run_on_reply a msgs reply))
          \<longrightarrow> PDict kw = dict_get tc ''arguments'' (PDict []))"
proof -
  have r: "reconcile (dict_get tc ''name'' PNone) x = Inr x" for x
    using assms(3) by (rule reconcile_other)
  have d: "run_on_reply a msgs reply
        = dispatch a msgs reply (dict_get tc ''name'' PNone)
            (dict_get tc ''arguments'' (PDict [])) (tools a)"
    using assms(1,2) r by (simp add: run_on_reply_dict)
  show ?thesis using r d by (auto dest: dispatch_invoked)
qed

theorem reconcile_identity_off_table_witness:
  \<open>parse_tool_call ''<tool_call>{"name": "fetch_weather", "arguments": {"city": "Arlington", "units": "metric"}}</tool_call>''
     = PDict [(''name'', PStr ''fetch_weather''),
              (''arguments'', PDict [(''city'', PStr ''Arlington''), (''units'', PStr ''metric'')])]
   \<and> snd (run_on_reply
          \<lparr>tools = [add, fetch_weather_unreachable ''timed out''],
           chat = (\<lambda>m ms. Inr ''The weather service cannot be reached.'')\<rparr> []
          ''<tool_call>{"name": "fetch_weather", "arguments": {"city": "Arlington", "units": "metric"}}</tool_call>'')
     = [Tool_invoked ''fetch_weather'' [(''city'', PStr ''Arlington''), (''units'', PStr ''metric'')],
        Model_asked
          [\<lparr>role = ''assistant'',
            content = ''<tool_call>{"name": "fetch_weather", "arguments": {"city": "Arlington", "units": "metric"}}</tool_call>''\<rparr>,
           \<lparr>role = ''user'',
            content = ''The result of fetch_weather is: {"error": "Failed to fetch weather data: timed out"}''\<rparr>]]\<close>
proof -
  let ?reply = \<open>''<tool_call>{"name": "fetch_weather", "arguments": {"city": "Arlington", "units": "metric"}}</tool_call>''\<close>
  let ?kw = "[(''city'', PStr ''Arlington''), (''units'', PStr ''metric'')]"
  let ?tc = "[(''name'', PStr ''fetch_weather''), (''arguments'', PDict ?kw)]"
  let ?t = "fetch_weather_unreachable ''timed out''"
  let ?a = "\<lparr>tools = [add, ?t],
             chat = (\<lambda>m ms. Inr ''The weather service cannot be reached.'')\<rparr>"
  have p: "parse_tool_call ?reply = PDict ?tc" by code_simp
  have ne: "?tc \<noteq> []" by simp
  have nm: "dict_get ?tc ''name'' PNone = PStr ''fetch_weather''" by (simp add: dict_get_def)
  then have nm': "dict_get ?tc ''name'' PNone \<noteq> PStr ''add''" by simp
  have ar: "dict_get ?tc ''arguments'' (PDict []) = PDict ?kw" by (simp add: dict_get_def)
  have c: "fetch_weather_call ''timed out'' ?kw
      = Inr (PDict [(''error'', PStr ''Failed to fetch weather data: timed out'')])"
    by code_simp
  have j: \<open>json_dumps (PDict [(''error'', PStr ''Failed to fetch weather data: timed out'')])
      = ''{"error": "Failed to fetch weather data: timed out"}''\<close> by code_simp
  have n1: "name add = ''add''" by (simp add: add_def tool_def)
  have n2: "name ?t = ''fetch_weather''" by (simp add: fetch_weather_unreachable_def tool_def)
  have c2: "call ?t = fetch_weather_call ''timed out''"
    by (simp add: fetch_weather_unreachable_def tool_def)
  have inv: "invoke ?t (PDict ?kw)
      = (Inr (PDict [(''error'', PStr ''Failed to fetch weather data: timed out'')]),
         [Tool_invoked ''fetch_weather'' ?kw])"
    by (simp only: invoke_def pyval.case c2 c n2)
  have tt: "snd (try_tool ?a [] ?reply (PDict ?kw) ?t)
      = [Tool_invoked ''fetch_weather'' ?kw,
         Model_asked
          [\<lparr>role = ''assistant'', content = ?reply\<rparr>,
           \<lparr>role = ''user'',
            content = ''The result of fetch_weather is: '' @
               json_dumps (PDict [(''error'', PStr ''Failed to fetch weather data: timed out'')])\<rparr>]]"
    unfolding try_tool_def inv n2 by simp
  have di: "dispatch ?a [] ?reply (PStr ''fetch_weather'') (PDict ?kw) (tools ?a)
      = try_tool ?a [] ?reply (PDict ?kw) ?t"
    by (simp add: n1 n2)
  from reconcile_identity_off_table [OF p ne nm', of PNone ?a "[]"]
  have "run_on_reply ?a [] ?reply
        = dispatch ?a [] ?reply (dict_get ?tc ''name'' PNone)
            (dict_get ?tc ''arguments'' (PDict [])) (tools ?a)"
    by blast
  then have "snd (run_on_reply ?a [] ?reply)
      = [Tool_invoked ''fetch_weather'' ?kw,
         Model_asked
          [\<lparr>role = ''assistant'', content = ?reply\<rparr>,
           \<lparr>role = ''user'',
            content = ''The result of fetch_weather is: '' @
               json_dumps (PDict [(''error'', PStr ''Failed to fetch weather data: timed out'')])\<rparr>]]"
    by (simp only: nm ar di tt)
  then show ?thesis using p by (simp only: j) simp
qed

text \<open>
  Claim C4. When the reply parses to a call, the reconciler has produced the arguments,
  the first tool of the registry with the requested name is \<open>t\<close>, and the call
  \<^verbatim>\<open>t(**arguments)\<close> raises an exception \<open>e\<close>, then \<open>run\<close> returns
  \<^verbatim>\<open>json.dumps({"error": str(e)})\<close>, which is the text \<^verbatim>\<open>{"error": "..."}\<close> with the
  message as a JSON string; the exception does not leave \<open>run\<close>.
\<close>

theorem tool_exception_answer:
  assumes "parse_tool_call reply = PDict tc"
    and "reconcile (dict_get tc ''name'' PNone) (dict_get tc ''arguments'' (PDict [])) = Inr args"
    and "find (\<lambda>t. PStr (name t) = dict_get tc ''name'' PNone) (tools a) = Some t"
    and "fst (invoke t args) = Inl e"
  shows \<open>fst (run_on_reply a msgs reply)
      = Inr (PStr (json_dumps (PDict [(''error'', PStr (str_exc e))])))
    \<and> json_dumps (PDict [(''error'', PStr (str_exc e))])
      = ''{"error": '' @ encode_str (str_exc e) @ ''}''\<close>
proof -
  have "PStr (name t) = dict_get tc ''name'' PNone"
    using assms(3) by (auto dest: find_Some_iff [THEN iffD1])
  then have "tc \<noteq> []" by (auto simp: dict_get_def)
  with assms(1,2) have "run_on_reply a msgs reply
      = dispatch a msgs reply (dict_get tc ''name'' PNone) args (tools a)"
    by (simp add: run_on_reply_dict)
  also have "\<dots> = try_tool a msgs reply args t"
    using assms(3) by (simp add: dispatch_find)
  finally have "fst (run_on_reply a msgs reply) = Inr (error_answer e)"
    using assms(4) by (simp add: try_tool_raises)
  then have "fst (run_on_reply a msgs reply)
      = Inr (PStr (json_dumps (PDict [(''error'', PStr (str_exc e))])))"
    by (simp only: error_answer_def)
  then show ?thesis using json_dumps_error [of "str_exc e"] by blast
qed

theorem tool_exception_answer_witness:
  \<open>run_on_reply \<lparr>tools = [add], chat = (\<lambda>m ms. Inr ''ok'')\<rparr> []
      ''<tool_call>{"name": "add", "arguments": {"num1": 5}}</tool_call>''
    = (Inr (PStr (''{"error": "unsupported operand type(s) for +: '' @ squote @ ''int'' @ squote
                  @ '' and '' @ squote @ ''NoneType'' @ squote @ ''"}'')),
       [Tool_invoked ''add'' [(''x'', PInt 5), (''y'', PNone)]])\<close>
proof -
  let ?reply = \<open>''<tool_call>{"name": "add", "arguments": {"num1": 5}}</tool_call>''\<close>
  let ?tc = "[(''name'', PStr ''add''), (''arguments'', PDict [(''num1'', PInt 5)])]"
  let ?a = "\<lparr>tools = [add], chat = (\<lambda>m ms. Inr ''ok'')\<rparr>"
  let ?args = "PDict [(''x'', PInt 5), (''y'', PNone)]"
  let ?e = "unsupported ''+'' (PInt 5) PNone"
  have p: "parse_tool_call ?reply = PDict ?tc" by code_simp
  have r: "reconcile (dict_get ?tc ''name'' PNone) (dict_get ?tc ''arguments'' (PDict []))
      = Inr ?args"
    by (simp add: reconcile_def dict_get_def)
  have f: "find (\<lambda>t. PStr (name t) = dict_get ?tc ''name'' PNone) (tools ?a) = Some add"
    by (simp add: dict_get_def add_def tool_def)
  have i: "invoke add ?args = (Inl ?e, [Tool_invoked ''add'' [(''x'', PInt 5), (''y'', PNone)]])"
    by (simp add: invoke_def add_def tool_def add_call_def py_add_def)
  then have i': "fst (invoke add ?args) = Inl ?e" by simp
  have m: \<open>''{"error": '' @ encode_str (str_exc ?e) @ ''}''
      = ''{"error": "unsupported operand type(s) for +: '' @ squote @ ''int'' @ squote
                  @ '' and '' @ squote @ ''NoneType'' @ squote @ ''"}''\<close>
    by code_simp
  have ev: "snd (run_on_reply ?a [] ?reply) = [Tool_invoked ''add'' [(''x'', PInt 5), (''y'', PNone)]]"
    using p r i by (simp add: run_on_reply_def dict_get_def try_tool_def add_def tool_def)
  from tool_exception_answer [OF p r f i', of "[]"] m
  have \<open>fst (run_on_reply ?a [] ?reply)
      = Inr (PStr (''{"error": "unsupported operand type(s) for +: '' @ squote @ ''int'' @ squote
                  @ '' and '' @ squote @ ''NoneType'' @ squote @ ''"}''))\<close>
    by simp
  with ev show ?thesis by (simp add: prod_eq_iff)
qed

text \<open>
  Claim C5, scenario A. The reply
  \<^verbatim>\<open><tool_call>{"name":"add","arguments":{"num1":5,"num2":3}}</tool_call>\<close> is parsed to
  that call, the reconciler turns the arguments into \<^verbatim>\<open>{"x": 5, "y": 3}\<close>, the call
  of \<open>add\<close> with them returns 8, and with \<open>add\<close> in the registry the run invokes it
  so and sends the result to the model.
\<close>

theorem scenario_add_5_3:
  \<open>parse_tool_call ''<tool_call>{"name":"add","arguments":{"num1":5,"num2":3}}</tool_call>''
     = PDict [(''name'', PStr ''add''),
              (''arguments'', PDict [(''num1'', PInt 5), (''num2'', PInt 3)])]
   \<and> reconcile (PStr ''add'') (PDict [(''num1'', PInt 5), (''num2'', PInt 3)])
     = Inr (PDict [(''x'', PInt 5), (''y'', PInt 3)])
   \<and> invoke add (PDict [(''x'', PInt 5), (''y'', PInt 3)])
     = (Inr (PInt 8), [Tool_invoked ''add'' [(''x'', PInt 5), (''y'', PInt 3)]])
   \<and> snd (run_on_reply \<lparr>tools = [add], chat = c\<rparr> msgs
        ''<tool_call>{"name":"add","arguments":{"num1":5,"num2":3}}</tool_call>'')
     = [Tool_invoked ''add'' [(''x'', PInt 5), (''y'', PInt 3)],
        Model_asked (msgs @
          [\<lparr>role = ''assistant'',
            content = ''<tool_call>{"name":"add","arguments":{"num1":5,"num2":3}}</tool_call>''\<rparr>,
           \<lparr>role = ''user'', content = ''The result of add is: 8''\<rparr>])]\<close>
proof -
  let ?reply = \<open>''<tool_call>{"name":"add","arguments":{"num1":5,"num2":3}}</tool_call>''\<close>
  have p: "parse_tool_call ?reply
     = PDict [(''name'', PStr ''add''),
              (''arguments'', PDict [(''num1'', PInt 5), (''num2'', PInt 3)])]"
    by code_simp
  have r: "reconcile (PStr ''add'') (PDict [(''num1'', PInt 5), (''num2'', PInt 3)])
     = Inr (PDict [(''x'', PInt 5), (''y'', PInt 3)])"
    by (simp add: reconcile_def dict_get_def)
  have i: "invoke add (PDict [(''x'', PInt 5), (''y'', PInt 3)])
     = (Inr (PInt 8), [Tool_invoked ''add'' [(''x'', PInt 5), (''y'', PInt 3)]])"
    by (simp add: invoke_def add_def tool_def add_call_def py_add_def)
  have d: "json_dumps (PInt 8) = ''8''" by code_simp
  have n: "name add = ''add''" by (simp add: add_def tool_def)
  have s: "snd (run_on_reply \<lparr>tools = [add], chat = c\<rparr> msgs ?reply)
     = [Tool_invoked ''add'' [(''x'', PInt 5), (''y'', PInt 3)],
        Model_asked (msgs @
          [\<lparr>role = ''assistant'', content = ?reply\<rparr>,
           \<lparr>role = ''user'', content = ''The result of add is: 8''\<rparr>])]"
    using p r i d n
    by (cases "c model (msgs @
          [\<lparr>role = ''assistant'', content = ?reply\<rparr>,
           \<lparr>role = ''user'', content = ''The result of add is: 8''\<rparr>])")
       (simp_all add: run_on_reply_def dict_get_def try_tool_def)
  show ?thesis using p r i s by simp
qed

text \<open>
  Claim C1 on the code. The reply asks for \<^verbatim>\<open>multiply\<close>, the registry holds only
  \<open>add\<close>: no tool is invoked and the model is not asked again, as the claim says, but
  the loop runs out and \<open>run\<close> returns \<^verbatim>\<open>None\<close>, not the text of the reply.
\<close>

theorem unknown_tool_returns_none:
  \<open>run_on_reply \<lparr>tools = [add], chat = c\<rparr> msgs
      ''<tool_call>{"name": "multiply", "arguments": {"a": 2, "b": 3}}</tool_call>''
    = (Inr PNone, [])\<close>
proof -
  have p: \<open>parse_tool_call
        ''<tool_call>{"name": "multiply", "arguments": {"a": 2, "b": 3}}</tool_call>''
     = PDict [(''name'', PStr ''multiply''),
              (''arguments'', PDict [(''a'', PInt 2), (''b'', PInt 3)])]\<close>
    by code_simp
  show ?thesis using p
    by (simp add: run_on_reply_def dict_get_def reconcile_def add_def tool_def)
qed

text \<open>
  Claim C3 on the code. The reply \<^verbatim>\<open>42\<close> is a JSON document, so the parser returns
  the int 42; it is true, and \<^verbatim>\<open>tool_call.get("name")\<close> raises
  \<^verbatim>\<open>AttributeError\<close> outside every handler: the exception leaves \<open>run\<close>, whatever
  the agent.
\<close>

theorem number_reply_raises:
  "run_on_reply a msgs ''42''
    = (Inl (AttributeError (squote @ ''int'' @ squote @ '' object has no attribute ''
              @ squote @ ''get'' @ squote)), [])"
proof -
  have p: "parse_tool_call ''42'' = PInt 42" by code_simp
  show ?thesis using p by (simp add: run_on_reply_def)
qed

end
